theory Spec2Isabelle
  imports Complex_Main
begin

section \<open>Errors raised by the modelled code\<close>

text \<open>
  Every exception the modelled functions raise is a value of this type; a function that
  may raise returns \<open>error + 'a\<close>, with \<open>Inl\<close> for the raise.
  \<open>ExternalFailure\<close> stands for whatever an external collaborator (storage query,
  evaluator) raises.
\<close>

datatype error =
    DagsterRunAlreadyExists
  | DagsterRunConflict
  | CheckError
  | NotImplementedError
  | ExternalFailure string

section \<open>Run storage and \<open>DagsterInstance\<close> (core/instance/__init__.py)\<close>

text \<open>
  \<open>PipelineRun\<close> is a named tuple: equality is structural. \<open>create_empty_run\<close> names
  the two fields the instance code reads.
\<close>

record pipeline_run =
  run_id :: string
  pipeline_name :: string

text \<open>
  The run storage is an external collaborator of the instance; the instance only calls
  \<open>has_run\<close>, \<open>get_run_by_id\<close> and \<open>add_run\<close> on it. It is held as a dictionary
  from run id to run, at most one run per run id. \<open>get_run_by_id\<close> gives \<open>None\<close>
  for an unknown id, as the Python does.
\<close>

type_synonym run_storage = "string \<rightharpoonup> pipeline_run"

definition has_run :: "run_storage \<Rightarrow> string \<Rightarrow> bool" where
  "has_run st rid = (st rid \<noteq> None)"

definition get_run_by_id :: "run_storage \<Rightarrow> string \<Rightarrow> pipeline_run option" where
  "get_run_by_id st rid = st rid"

definition add_run :: "run_storage \<Rightarrow> pipeline_run \<Rightarrow> pipeline_run \<times> run_storage" where
  "add_run st r = (r, st(run_id r \<mapsto> r))"

text \<open>
  \<open>DagsterInstance.create_run\<close> (lines 314-325): the result and the storage afterwards.
\<close>

definition create_run :: "run_storage \<Rightarrow> pipeline_run \<Rightarrow> (error + pipeline_run) \<times> run_storage" where
  "create_run st r =
     (if has_run st (run_id r) then (Inl DagsterRunAlreadyExists, st)
      else (case add_run st r of (run, st') \<Rightarrow> (Inr run, st')))"

text \<open>
  \<open>DagsterInstance.get_or_create_run\<close> (lines 327-350). The source has no lock
  ("This eventually needs transactional/locking semantics"): between its first
  \<open>has_run\<close> and its \<open>create_run\<close> another instigator may write to the storage, which
  is the only way the \<open>except DagsterRunAlreadyExists\<close> branch is reached. The model
  takes that concurrent write as the function \<open>other\<close>, applied to the storage between
  the two calls; \<open>id\<close> is the run without interference. The value returned is the one
  \<open>get_run_by_id\<close> or \<open>create_run\<close> gave.
\<close>

definition get_or_create_run ::
  "(run_storage \<Rightarrow> run_storage) \<Rightarrow> run_storage \<Rightarrow> pipeline_run
     \<Rightarrow> (error + pipeline_run option) \<times> run_storage" where
  "get_or_create_run other st r =
     (if has_run st (run_id r) then
        (let candidate_run = get_run_by_id st (run_id r) in
         if \<not> (candidate_run = Some r) then (Inl DagsterRunConflict, st)
         else (Inr candidate_run, st))
      else
        (case create_run (other st) r of
           (Inr run, st') \<Rightarrow> (Inr (Some run), st')
         | (Inl DagsterRunAlreadyExists, st') \<Rightarrow>
             (if \<not> has_run st' (run_id r) then (Inl CheckError, st')
              else (Inr (get_run_by_id st' (run_id r)), st'))
         | (Inl e, st') \<Rightarrow> (Inl e, st')))"

section \<open>The scheduling-policy extension point (reactive_scheduling/scheduling_policy.py)\<close>

type_synonym asset_key = "string list"

type_synonym asset_partition = "asset_key \<times> string option"

text \<open>A point in time, in seconds since the epoch; \<open>timestamp\<close> is \<open>datetime.timestamp()\<close>.\<close>

type_synonym datetime = real

definition timestamp :: "datetime \<Rightarrow> real" where
  "timestamp dt = dt"

text \<open>
  \<open>SchedulingResult(launch, cursor=None, explicit_partition_keys=None)\<close> and
  \<open>RequestReaction(include)\<close> are named tuples, with the defaults of the source
  written out where a constructor call leaves them unset. A field whose name another
  record of this theory has too carries a prefix: \<open>sched_cursor\<close>,
  \<open>sched_repository_def\<close> and \<open>sched_asset_key\<close> are the source's \<open>cursor\<close>,
  \<open>repository_def\<close> and \<open>asset_key\<close>.
\<close>

record scheduling_result =
  launch :: bool
  sched_cursor :: "string option"
  explicit_partition_keys :: "string set option"

record request_reaction =
  "include" :: bool

record ('q, 'r) scheduling_execution_context =
  previous_tick_dt :: "datetime option"
  tick_dt :: datetime
  queryer :: 'q
  sched_repository_def :: 'r
  sched_asset_key :: asset_key
  previous_cursor :: "string option"

text \<open>
  The two policy classes of the file. The methods of the base class have the body
  \<open>...\<close>, so they return \<open>None\<close>; \<open>DefaultSchedulingPolicy\<close> overrides
  \<open>schedule\<close> and \<open>react_to_downstream_request\<close> and inherits
  \<open>react_to_upstream_request\<close>.
\<close>

datatype scheduling_policy = SchedulingPolicy | DefaultSchedulingPolicy

fun schedule ::
  "scheduling_policy \<Rightarrow> ('q, 'r) scheduling_execution_context \<Rightarrow> scheduling_result option" where
  "schedule SchedulingPolicy context = None"
| "schedule DefaultSchedulingPolicy context =
     Some \<lparr>launch = False, sched_cursor = None, explicit_partition_keys = None\<rparr>"

fun react_to_downstream_request ::
  "scheduling_policy \<Rightarrow> ('q, 'r) scheduling_execution_context \<Rightarrow> asset_partition
     \<Rightarrow> request_reaction option" where
  "react_to_downstream_request SchedulingPolicy context asset_partition = None"
| "react_to_downstream_request DefaultSchedulingPolicy context asset_partition =
     Some \<lparr>include = False\<rparr>"

fun react_to_upstream_request ::
  "scheduling_policy \<Rightarrow> ('q, 'r) scheduling_execution_context \<Rightarrow> asset_partition
     \<Rightarrow> request_reaction option" where
  "react_to_upstream_request policy context asset_partition = None"

text \<open>
  \<open>RunRequest\<close>: asset-partition selections plus tags (the data model of the spec).
\<close>

record run_request =
  asset_partitions :: "asset_partition set"
  tags :: "(string \<times> string) list"

text \<open>
  Modelled from the spec: the driver that turns the policies' decisions into run requests
  is not among the sources. The spec gives \<open>launch\<close> as the decision of the policy and
  its scenario 1 as "launch=False for both, empty RunRequest list": an asset is requested
  on a tick exactly when its policy's \<open>schedule\<close> returns a result with \<open>launch\<close> set,
  and each requested asset gets one run request (for its explicit partition keys, or
  unpartitioned when there are none).
\<close>

definition requested_partitions :: "asset_key \<Rightarrow> scheduling_result \<Rightarrow> asset_partition set" where
  "requested_partitions k res =
     (case explicit_partition_keys res of
        None \<Rightarrow> {(k, None)}
      | Some pks \<Rightarrow> (\<lambda>pk. (k, Some pk)) ` pks)"

fun policy_run_requests ::
  "(scheduling_policy \<times> ('q, 'r) scheduling_execution_context) list \<Rightarrow> run_request list" where
  "policy_run_requests [] = []"
| "policy_run_requests ((policy, context) # rest) =
     (case schedule policy context of
        None \<Rightarrow> policy_run_requests rest
      | Some res \<Rightarrow>
          (if launch res
           then \<lparr>asset_partitions = requested_partitions (sched_asset_key context) res, tags = []\<rparr>
                  # policy_run_requests rest
           else policy_run_requests rest))"

section \<open>Cursor and evaluation results of the automation-condition tick\<close>

text \<open>
  Modelled from the spec: the classes of the cursor and of the evaluator's results are
  not among the sources; \<open>evaluate_automation_conditions\<close> only reads the attributes
  named below. The spec's data model gives the rest: a sub-cursor per asset, which
  stores the value hash of the result it came from; a Cursor with an evaluation id, an
  evaluation timestamp, the mapping from asset key to sub-cursor and the record of what
  was newly requested for observation; an EvaluationResult with its asset key, true-set,
  \<open>value_hash\<close>, new sub-cursor and serializable evaluation record (of a type \<open>'e\<close>
  left open).
\<close>

record automation_condition_cursor =
  key :: asset_key
  result_value_hash :: string
  node_cursors :: string

record asset_daemon_cursor =
  evaluation_id :: int
  evaluation_timestamp :: "real option"
  condition_cursors :: "asset_key \<rightharpoonup> automation_condition_cursor"
  newly_observe_requested :: "asset_key list"

record 'e automation_result =
  asset_key :: asset_key
  true_slice :: "asset_partition set"
  value_hash :: string
  get_new_cursor :: automation_condition_cursor
  serializable_evaluation :: 'e

definition is_empty :: "asset_partition set \<Rightarrow> bool" where
  "is_empty slice = (slice = {})"

text \<open>
  Modelled from the spec: \<open>AssetDaemonCursor.empty\<close>, the "empty initial cursor" of
  the first tick: no sub-cursor for any asset, nothing requested, evaluation id 0.
\<close>

definition empty_cursor :: asset_daemon_cursor where
  "empty_cursor =
     \<lparr>evaluation_id = 0, evaluation_timestamp = None,
      condition_cursors = Map.empty, newly_observe_requested = []\<rparr>"

text \<open>
  Modelled from the spec: \<open>get_previous_condition_cursor\<close>, "load previous sub-cursor
  for the asset (absent on first-ever tick)".
\<close>

definition get_previous_condition_cursor ::
  "asset_daemon_cursor \<Rightarrow> asset_key \<Rightarrow> automation_condition_cursor option" where
  "get_previous_condition_cursor c k = condition_cursors c k"

text \<open>
  Modelled from the spec: \<open>with_updates\<close> is not among the sources. The spec: it
  "produces a new Cursor from the old one plus the tick's results: bumps evaluation id,
  stamps the evaluation timestamp, replaces each asset's sub-cursor with its newly
  computed one (assets not touched this tick retain their prior sub-cursor unchanged)".
  The sub-cursors are stored in the order of the list, each under its own key, so a later
  one replaces an earlier one of the same asset. The evaluation id that is bumped is the
  one the caller hands over, and the keys newly requested for observation are recorded as
  handed over.
\<close>

fun replace_condition_cursors ::
  "(asset_key \<rightharpoonup> automation_condition_cursor) \<Rightarrow> automation_condition_cursor list
     \<Rightarrow> (asset_key \<rightharpoonup> automation_condition_cursor)" where
  "replace_condition_cursors m [] = m"
| "replace_condition_cursors m (cc # ccs) = replace_condition_cursors (m(key cc \<mapsto> cc)) ccs"

definition with_updates ::
  "asset_daemon_cursor \<Rightarrow> int \<Rightarrow> real \<Rightarrow> asset_key list \<Rightarrow> automation_condition_cursor list
     \<Rightarrow> asset_daemon_cursor" where
  "with_updates c eid ts observe_keys ccs =
     c\<lparr>evaluation_id := eid + 1,
       evaluation_timestamp := Some ts,
       condition_cursors := replace_condition_cursors (condition_cursors c) ccs,
       newly_observe_requested := observe_keys\<rparr>"

text \<open>
  Modelled from the spec: \<open>asset_daemon_cursor_from_instigator_serialized_cursor\<close> is
  not among the sources, and the serialized cursor is an opaque string. The decoder of
  the wire format is the parameter \<open>decode\<close>, which gives \<open>None\<close> for a string that
  is malformed or of a foreign version. The spec: such a cursor "falls back to an empty
  initial cursor ... rather than failing the whole tick"; no stored cursor (the first
  tick) is the empty cursor too.
\<close>

definition asset_daemon_cursor_from_instigator_serialized_cursor ::
  "(string \<Rightarrow> 'g \<Rightarrow> asset_daemon_cursor option) \<Rightarrow> string option \<Rightarrow> 'g
     \<Rightarrow> asset_daemon_cursor" where
  "asset_daemon_cursor_from_instigator_serialized_cursor decode serialized_cursor asset_graph =
     (case serialized_cursor of
        None \<Rightarrow> empty_cursor
      | Some s \<Rightarrow> (case decode s asset_graph of None \<Rightarrow> empty_cursor | Some c \<Rightarrow> c))"

section \<open>The sensor tick (automation_condition_sensor_definition.py)\<close>

text \<open>
  What the tick reads of its arguments. The instance holds two settings and the records
  (runs, materializations, observations) the queryer reads, of a type \<open>'h\<close> left open;
  the repository definition holds the asset graph, of a type \<open>'g\<close> left open. The log of
  the context is only written to. An asset selection is what \<open>resolve\<close> makes of it:
  a function from the asset graph to the selected keys.
\<close>

record 'h dagster_instance =
  da_request_backfills :: bool
  auto_materialize_run_tags :: "(string \<times> string) list"
  records :: 'h

record 'g repository_definition =
  asset_graph :: 'g

record ('g, 'h) sensor_evaluation_context =
  repository_def :: "'g repository_definition option"
  "instance" :: "'h dagster_instance"
  cursor :: "string option"
  log :: "string list"

datatype default_sensor_status = RUNNING | STOPPED

datatype sensor_type = AUTOMATION | AUTO_MATERIALIZE

record ('g, 'a) automation_condition_sensor_definition =
  name :: string
  user_code :: bool
  default_automation_condition :: "'a option"
  run_tags :: "(string \<times> string) list"
  asset_selection :: "'g \<Rightarrow> asset_key set"
  default_status :: default_sensor_status
  minimum_interval_seconds :: "int option"
  description :: "string option"

record 'e sensor_result =
  run_requests :: "run_request list"
  result_cursor :: string
  automation_condition_evaluations :: "'e list"

text \<open>
  The collaborators of the tick that are not among the sources are parameters of the
  model: the codec of the cursor's wire format, \<open>AutomationConditionEvaluator.evaluate\<close>
  and \<open>build_run_requests\<close>. The evaluator is given what its constructor is given:
  graph, selected keys, instance, evaluation time, cursor, the flag for backfills and the
  default condition. The queryer, the asset graph view and the resolvers the source
  builds for it are made of the instance, the graph and the evaluation time; the
  arguments \<open>respect_materialization_data_versions=True\<close> and
  \<open>auto_materialize_run_tags={}\<close> are constants. The evaluator queries the storage, so
  it may fail. \<open>result_cursor\<close> is the \<open>cursor\<close> of the \<open>SensorResult\<close>.
\<close>

record ('g, 'h, 'a, 'e) collaborators =
  decode_cursor :: "string \<Rightarrow> 'g \<Rightarrow> asset_daemon_cursor option"
  asset_daemon_cursor_to_instigator_serialized_cursor :: "asset_daemon_cursor \<Rightarrow> string"
  evaluate :: "'g \<Rightarrow> asset_key set \<Rightarrow> 'h dagster_instance \<Rightarrow> datetime \<Rightarrow> asset_daemon_cursor
                 \<Rightarrow> bool \<Rightarrow> 'a option
                 \<Rightarrow> error + ('e automation_result list \<times> asset_partition set)"
  build_run_requests :: "asset_partition set \<Rightarrow> 'g \<Rightarrow> (string \<times> string) list \<Rightarrow> run_request list"

text \<open>
  Lines 81-86: the cursor for the next tick, from the cursor read at the start of the
  tick, the evaluation time and the results.
\<close>

definition new_cursor ::
  "asset_daemon_cursor \<Rightarrow> datetime \<Rightarrow> 'e automation_result list \<Rightarrow> asset_daemon_cursor" where
  "new_cursor c evaluation_time results =
     with_updates c (evaluation_id c) (timestamp evaluation_time) []
       (map get_new_cursor results)"

text \<open>
  Lines 93-102: "only record evaluation results where something changed". The loop
  appends to \<open>updated_evaluations\<close>, which starts empty.
\<close>

fun record_changed ::
  "asset_daemon_cursor \<Rightarrow> 'e automation_result list \<Rightarrow> 'e list \<Rightarrow> 'e list" where
  "record_changed c [] updated = updated"
| "record_changed c (result # rest) updated =
     (if (case get_previous_condition_cursor c (asset_key result) of
            None \<Rightarrow> True
          | Some previous \<Rightarrow>
              result_value_hash previous \<noteq> value_hash result
              \<or> \<not> is_empty (true_slice result))
      then record_changed c rest (updated @ [serializable_evaluation result])
      else record_changed c rest updated)"

definition updated_evaluations :: "asset_daemon_cursor \<Rightarrow> 'e automation_result list \<Rightarrow> 'e list" where
  "updated_evaluations c results = record_changed c results []"

text \<open>
  \<open>evaluate_automation_conditions\<close> (lines 30-108). \<open>now\<close> is what the one call of
  \<open>get_current_datetime\<close> returns. \<open>check.not_none\<close> raises on a context without a
  repository definition; a failure of the evaluator ends the tick with that failure.
\<close>

definition evaluate_automation_conditions ::
  "('g, 'h, 'a, 'e) collaborators \<Rightarrow> datetime \<Rightarrow> ('g, 'h) sensor_evaluation_context
     \<Rightarrow> ('g, 'a) automation_condition_sensor_definition \<Rightarrow> error + 'e sensor_result" where
  "evaluate_automation_conditions ext now context sensor_def =
     (case repository_def context of
        None \<Rightarrow> Inl CheckError
      | Some repo \<Rightarrow>
          (let graph = asset_graph repo;
               evaluation_time = now;
               c = asset_daemon_cursor_from_instigator_serialized_cursor
                     (decode_cursor ext) (cursor context) graph
           in case evaluate ext graph (asset_selection sensor_def graph) (instance context)
                     evaluation_time c (da_request_backfills (instance context))
                     (default_automation_condition sensor_def) of
                Inl e \<Rightarrow> Inl e
              | Inr (results, to_request) \<Rightarrow>
                  Inr \<lparr>run_requests =
                         build_run_requests ext to_request graph
                           (auto_materialize_run_tags (instance context)),
                       result_cursor =
                         asset_daemon_cursor_to_instigator_serialized_cursor ext
                           (new_cursor c evaluation_time results),
                       automation_condition_evaluations = updated_evaluations c results\<rparr>))"

text \<open>
  \<open>not_supported\<close> (lines 111-114) and the constructor of
  \<open>AutomationConditionSensorDefinition\<close> (lines 134-173). A keyword argument is absent
  (\<open>None\<close>) or a Python value; \<open>check.opt_bool_param\<close> takes \<open>None\<close> to the
  default and raises on a value that is not a bool. The helpers \<open>check_valid_name\<close>
  and \<open>normalize_tags\<close> are not among the sources and are parameters. The constructor
  of the superclass stores what it is given; the evaluation function it is given is
  \<open>evaluation_fn\<close> below, chosen by \<open>user_code\<close>.
\<close>

datatype py_value = PyBool bool | PyOther

definition opt_bool_param :: "py_value option \<Rightarrow> bool \<Rightarrow> error + bool" where
  "opt_bool_param obj dflt =
     (case obj of None \<Rightarrow> Inr dflt | Some (PyBool b) \<Rightarrow> Inr b | Some PyOther \<Rightarrow> Inl CheckError)"

definition not_supported :: "('g, 'h) sensor_evaluation_context \<Rightarrow> error + 'e sensor_result" where
  "not_supported context = Inl NotImplementedError"

definition init ::
  "(string \<Rightarrow> error + string) \<Rightarrow> ((string \<times> string) list option \<Rightarrow> error + (string \<times> string) list)
     \<Rightarrow> string \<Rightarrow> ('g \<Rightarrow> asset_key set) \<Rightarrow> (string \<times> string) list option
     \<Rightarrow> default_sensor_status \<Rightarrow> int option \<Rightarrow> string option
     \<Rightarrow> py_value option \<Rightarrow> 'a option
     \<Rightarrow> error + ('g, 'a) automation_condition_sensor_definition" where
  "init check_valid_name normalize_tags nm selection tgs status interval descr
        kw_user_code kw_default_automation_condition =
     (case opt_bool_param kw_user_code False of
        Inl e \<Rightarrow> Inl e
      | Inr uc \<Rightarrow>
          (if kw_default_automation_condition \<noteq> None \<and> \<not> uc then Inl CheckError
           else case normalize_tags tgs of
                  Inl e \<Rightarrow> Inl e
                | Inr normalized \<Rightarrow>
                    (case check_valid_name nm of
                       Inl e \<Rightarrow> Inl e
                     | Inr valid_name \<Rightarrow>
                         Inr \<lparr>name = valid_name, user_code = uc,
                              default_automation_condition = kw_default_automation_condition,
                              run_tags = normalized, asset_selection = selection,
                              default_status = status, minimum_interval_seconds = interval,
                              description = descr\<rparr>)))"

definition evaluation_fn ::
  "('g, 'h, 'a, 'e) collaborators \<Rightarrow> datetime \<Rightarrow> ('g, 'a) automation_condition_sensor_definition
     \<Rightarrow> ('g, 'h) sensor_evaluation_context \<Rightarrow> error + 'e sensor_result" where
  "evaluation_fn ext now self context =
     (if user_code self then evaluate_automation_conditions ext now context self
      else not_supported context)"

definition sensor_type :: "('g, 'a) automation_condition_sensor_definition \<Rightarrow> sensor_type" where
  "sensor_type self = (if user_code self then AUTOMATION else AUTO_MATERIALIZE)"

section \<open>Example inputs\<close>

text \<open>
  Concrete inputs on which the results below are evaluated. The example codec writes a
  cursor as its evaluation id in unary; the example evaluator finds nothing to request.
\<close>

definition example_collaborators :: "(unit, unit, unit, string) collaborators" where
  "example_collaborators =
     \<lparr>decode_cursor =
        (\<lambda>s g. if s \<noteq> [] \<and> set s \<subseteq> {CHR ''i''}
                then Some (empty_cursor\<lparr>evaluation_id := int (length s)\<rparr>) else None),
      asset_daemon_cursor_to_instigator_serialized_cursor =
        (\<lambda>c. replicate (nat (evaluation_id c)) CHR ''i''),
      evaluate = (\<lambda>g keys inst t c backfills dflt. Inr ([], {})),
      build_run_requests = (\<lambda>to_request g tgs. [])\<rparr>"

definition example_context :: "(unit, unit) sensor_evaluation_context" where
  "example_context =
     \<lparr>repository_def = Some \<lparr>asset_graph = ()\<rparr>,
      instance = \<lparr>da_request_backfills = False, auto_materialize_run_tags = [], records = ()\<rparr>,
      cursor = Some ''ii'',
      log = []\<rparr>"

definition example_sensor :: "(unit, unit) automation_condition_sensor_definition" where
  "example_sensor =
     \<lparr>name = ''automation'', user_code = True, default_automation_condition = None,
      run_tags = [], asset_selection = (\<lambda>g. {[''a''], [''b'']}),
      default_status = STOPPED, minimum_interval_seconds = None, description = None\<rparr>"

definition example_cursor :: asset_daemon_cursor where
  "example_cursor =
     \<lparr>evaluation_id = 7, evaluation_timestamp = Some 1699999970,
      condition_cursors =
        [[''a''] \<mapsto> \<lparr>key = [''a''], result_value_hash = ''h_empty'', node_cursors = ''a0''\<rparr>,
         [''b''] \<mapsto> \<lparr>key = [''b''], result_value_hash = ''h_b'', node_cursors = ''b0''\<rparr>,
         [''c''] \<mapsto> \<lparr>key = [''c''], result_value_hash = ''h_c'', node_cursors = ''c0''\<rparr>,
         [''z''] \<mapsto> \<lparr>key = [''z''], result_value_hash = ''h_z'', node_cursors = ''z0''\<rparr>],
      newly_observe_requested = [[''z'']]\<rparr>"

definition example_results :: "string automation_result list" where
  "example_results =
     [\<lparr>asset_key = [''a''], true_slice = {}, value_hash = ''h_empty'',
       get_new_cursor = \<lparr>key = [''a''], result_value_hash = ''h_empty'', node_cursors = ''a1''\<rparr>,
       serializable_evaluation = ''evaluation of a''\<rparr>,
      \<lparr>asset_key = [''b''], true_slice = {([''b''], None)}, value_hash = ''h_b'',
       get_new_cursor = \<lparr>key = [''b''], result_value_hash = ''h_b'', node_cursors = ''b1''\<rparr>,
       serializable_evaluation = ''evaluation of b''\<rparr>,
      \<lparr>asset_key = [''c''], true_slice = {}, value_hash = ''h_empty'',
       get_new_cursor = \<lparr>key = [''c''], result_value_hash = ''h_empty'', node_cursors = ''c1''\<rparr>,
       serializable_evaluation = ''evaluation of c''\<rparr>,
      \<lparr>asset_key = [''d''], true_slice = {}, value_hash = ''h_empty'',
       get_new_cursor = \<lparr>key = [''d''], result_value_hash = ''h_empty'', node_cursors = ''d1''\<rparr>,
       serializable_evaluation = ''evaluation of d''\<rparr>]"

section \<open>Auxiliary facts\<close>

lemma record_changed_filter:
  "record_changed c results updated =
     updated @ map serializable_evaluation
       (filter (\<lambda>result.
          \<not> (\<exists>previous. get_previous_condition_cursor c (asset_key result) = Some previous
                \<and> result_value_hash previous = value_hash result
                \<and> true_slice result = {})) results)"
  by (induction results arbitrary: updated) (auto simp: is_empty_def split: option.splits)

lemma find_append_first:
  "find P (xs @ ys) = (case find P xs of None \<Rightarrow> find P ys | Some x \<Rightarrow> Some x)"
  by (induction xs) auto

lemma replace_condition_cursors_lookup:
  "replace_condition_cursors m ccs k =
     (case find (\<lambda>cc. key cc = k) (rev ccs) of None \<Rightarrow> m k | Some cc \<Rightarrow> Some cc)"
proof (induction ccs arbitrary: m)
  case Nil
  then show ?case by simp
next
  case (Cons cc ccs)
  show ?case
    by (simp add: Cons.IH find_append_first split: option.splits)
qed

lemma find_key_absent:
  "k \<notin> key ` set ccs \<Longrightarrow> find (\<lambda>cc. key cc = k) (rev ccs) = None"
  by (auto simp: find_None_iff)

lemma find_distinct_key:
  "distinct (map key ccs) \<Longrightarrow> cc \<in> set ccs \<Longrightarrow> find (\<lambda>x. key x = key cc) (rev ccs) = Some cc"
proof (induction ccs)
  case Nil
  then show ?case by simp
next
  case (Cons a ccs)
  show ?case
  proof (cases "cc = a")
    case True
    from Cons.prems(1) have "key a \<notin> key ` set ccs"
      by simp
    then have "\<forall>x\<in>set ccs. key x \<noteq> key a"
      by (metis imageI)
    then have "find (\<lambda>x. key x = key a) (rev ccs) = None"
      by (simp add: find_None_iff)
    with True show ?thesis by (simp add: find_append_first)
  next
    case False
    with Cons show ?thesis by (simp add: find_append_first)
  qed
qed

lemma evaluate_automation_conditions_returns:
  assumes "repository_def context = Some repo"
    and "evaluate ext (asset_graph repo) (asset_selection sensor_def (asset_graph repo))
           (instance context) now
           (asset_daemon_cursor_from_instigator_serialized_cursor (decode_cursor ext)
              (cursor context) (asset_graph repo))
           (da_request_backfills (instance context))
           (default_automation_condition sensor_def) = Inr (results, to_request)"
  shows "evaluate_automation_conditions ext now context sensor_def =
     Inr \<lparr>run_requests =
            build_run_requests ext to_request (asset_graph repo)
              (auto_materialize_run_tags (instance context)),
          result_cursor =
            asset_daemon_cursor_to_instigator_serialized_cursor ext
              (new_cursor
                 (asset_daemon_cursor_from_instigator_serialized_cursor (decode_cursor ext)
                    (cursor context) (asset_graph repo))
                 now results),
          automation_condition_evaluations =
            updated_evaluations
              (asset_daemon_cursor_from_instigator_serialized_cursor (decode_cursor ext)
                 (cursor context) (asset_graph repo))
              results\<rparr>"
  using assms by (simp add: evaluate_automation_conditions_def Let_def)

section \<open>Results about the instance\<close>

text \<open>
  C10. \<open>create_run\<close> on a run whose run id is already in the run storage raises
  \<open>DagsterRunAlreadyExists\<close> and leaves the storage as it was; on a run id not yet in
  the storage it returns the run, and the storage afterwards is the old one with that
  run stored under its id (every other id as before).
\<close>

theorem create_run_existing_or_new:
  "(has_run st (run_id r) \<longrightarrow> create_run st r = (Inl DagsterRunAlreadyExists, st))
   \<and> (\<not> has_run st (run_id r) \<longrightarrow>
        create_run st r = (Inr r, st(run_id r \<mapsto> r))
        \<and> get_run_by_id (snd (create_run st r)) (run_id r) = Some r
        \<and> (\<forall>rid. rid \<noteq> run_id r \<longrightarrow>
              get_run_by_id (snd (create_run st r)) rid = get_run_by_id st rid))"
  by (simp add: create_run_def add_run_def get_run_by_id_def)

theorem create_run_existing_or_new_witness:
  "has_run [''run_1'' \<mapsto> \<lparr>run_id = ''run_1'', pipeline_name = ''etl''\<rparr>] ''run_1''
   \<and> create_run [''run_1'' \<mapsto> \<lparr>run_id = ''run_1'', pipeline_name = ''etl''\<rparr>]
         \<lparr>run_id = ''run_1'', pipeline_name = ''report''\<rparr>
       = (Inl DagsterRunAlreadyExists, [''run_1'' \<mapsto> \<lparr>run_id = ''run_1'', pipeline_name = ''etl''\<rparr>])
   \<and> \<not> has_run [''run_1'' \<mapsto> \<lparr>run_id = ''run_1'', pipeline_name = ''etl''\<rparr>] ''run_2''
   \<and> create_run [''run_1'' \<mapsto> \<lparr>run_id = ''run_1'', pipeline_name = ''etl''\<rparr>]
         \<lparr>run_id = ''run_2'', pipeline_name = ''etl''\<rparr>
       = (Inr \<lparr>run_id = ''run_2'', pipeline_name = ''etl''\<rparr>,
          [''run_1'' \<mapsto> \<lparr>run_id = ''run_1'', pipeline_name = ''etl''\<rparr>,
           ''run_2'' \<mapsto> \<lparr>run_id = ''run_2'', pipeline_name = ''etl''\<rparr>])"
  using create_run_existing_or_new
          [of "[''run_1'' \<mapsto> \<lparr>run_id = ''run_1'', pipeline_name = ''etl''\<rparr>]"
              "\<lparr>run_id = ''run_1'', pipeline_name = ''report''\<rparr>"]
        create_run_existing_or_new
          [of "[''run_1'' \<mapsto> \<lparr>run_id = ''run_1'', pipeline_name = ''etl''\<rparr>]"
              "\<lparr>run_id = ''run_2'', pipeline_name = ''etl''\<rparr>"]
  by (simp add: has_run_def)

text \<open>
  The claim C5 as stated fails where the stored run differs from the one handed in:
  the run id exists, and the call raises \<open>DagsterRunConflict\<close>.
\<close>

theorem get_or_create_run_conflict_counterexample:
  "has_run [''run_1'' \<mapsto> \<lparr>run_id = ''run_1'', pipeline_name = ''etl''\<rparr>] ''run_1''
   \<and> get_or_create_run id [''run_1'' \<mapsto> \<lparr>run_id = ''run_1'', pipeline_name = ''etl''\<rparr>]
         \<lparr>run_id = ''run_1'', pipeline_name = ''report''\<rparr>
       = (Inl DagsterRunConflict, [''run_1'' \<mapsto> \<lparr>run_id = ''run_1'', pipeline_name = ''etl''\<rparr>])"
  by (simp add: get_or_create_run_def has_run_def get_run_by_id_def)

text \<open>
  C5 (amended). When the run id is already in the run storage at the first check,
  \<open>get_or_create_run\<close> returns the stored run if it equals the run handed in and raises
  \<open>DagsterRunConflict\<close> if it differs; the storage is unchanged. When the id is absent
  at the first check and another instigator stores a run under it before \<open>create_run\<close>
  (so that \<open>create_run\<close> raises \<open>DagsterRunAlreadyExists\<close>), the call does not fail:
  it returns the run that is stored, whatever its content.
\<close>

theorem get_or_create_run_existing:
  "(has_run st (run_id r) \<longrightarrow>
      get_or_create_run other st r =
        (if get_run_by_id st (run_id r) = Some r then (Inr (Some r), st)
         else (Inl DagsterRunConflict, st)))
   \<and> (\<not> has_run st (run_id r) \<and> has_run (other st) (run_id r) \<longrightarrow>
        get_or_create_run other st r = (Inr (get_run_by_id (other st) (run_id r)), other st)
        \<and> get_run_by_id (other st) (run_id r) \<noteq> None)"
  by (simp add: get_or_create_run_def create_run_def has_run_def get_run_by_id_def Let_def)

theorem get_or_create_run_existing_witness:
  "has_run [''run_1'' \<mapsto> \<lparr>run_id = ''run_1'', pipeline_name = ''etl''\<rparr>] ''run_1''
   \<and> get_or_create_run id [''run_1'' \<mapsto> \<lparr>run_id = ''run_1'', pipeline_name = ''etl''\<rparr>]
         \<lparr>run_id = ''run_1'', pipeline_name = ''etl''\<rparr>
       = (Inr (Some \<lparr>run_id = ''run_1'', pipeline_name = ''etl''\<rparr>),
          [''run_1'' \<mapsto> \<lparr>run_id = ''run_1'', pipeline_name = ''etl''\<rparr>])
   \<and> \<not> has_run Map.empty ''run_1''
   \<and> has_run ((\<lambda>st. st(''run_1'' \<mapsto> \<lparr>run_id = ''run_1'', pipeline_name = ''etl''\<rparr>)) Map.empty) ''run_1''
   \<and> get_or_create_run (\<lambda>st. st(''run_1'' \<mapsto> \<lparr>run_id = ''run_1'', pipeline_name = ''etl''\<rparr>))
         Map.empty \<lparr>run_id = ''run_1'', pipeline_name = ''report''\<rparr>
       = (Inr (Some \<lparr>run_id = ''run_1'', pipeline_name = ''etl''\<rparr>),
          [''run_1'' \<mapsto> \<lparr>run_id = ''run_1'', pipeline_name = ''etl''\<rparr>])"
  using get_or_create_run_existing
          [of "[''run_1'' \<mapsto> \<lparr>run_id = ''run_1'', pipeline_name = ''etl''\<rparr>]"
              "\<lparr>run_id = ''run_1'', pipeline_name = ''etl''\<rparr>" id]
        get_or_create_run_existing
          [of Map.empty "\<lparr>run_id = ''run_1'', pipeline_name = ''report''\<rparr>"
              "\<lambda>st. st(''run_1'' \<mapsto> \<lparr>run_id = ''run_1'', pipeline_name = ''etl''\<rparr>)"]
  by (simp add: has_run_def get_run_by_id_def)

section \<open>Results about the default scheduling policy\<close>

text \<open>
  C4. For every scheduling execution context and every asset partition,
  \<open>DefaultSchedulingPolicy.schedule\<close> returns a \<open>SchedulingResult\<close> with \<open>launch\<close>
  false, no cursor and no explicit partition keys, and
  \<open>DefaultSchedulingPolicy.react_to_downstream_request\<close> returns a \<open>RequestReaction\<close>
  with \<open>include\<close> false. Hence for two assets under the default policy (whatever the
  dependency between them, which the policy does not read) no run request is built.
\<close>

theorem default_policy_never_launches:
  "schedule DefaultSchedulingPolicy context
     = Some \<lparr>launch = False, sched_cursor = None, explicit_partition_keys = None\<rparr>
   \<and> react_to_downstream_request DefaultSchedulingPolicy context asset_partition
     = Some \<lparr>include = False\<rparr>
   \<and> policy_run_requests
       [(DefaultSchedulingPolicy, context_a), (DefaultSchedulingPolicy, context_b)] = []"
  by simp

theorem default_policy_never_launches_witness:
  "schedule DefaultSchedulingPolicy
     \<lparr>previous_tick_dt = None, tick_dt = 100, queryer = (), sched_repository_def = (),
      sched_asset_key = [''a''], previous_cursor = None\<rparr>
     = Some \<lparr>launch = False, sched_cursor = None, explicit_partition_keys = None\<rparr>
   \<and> react_to_downstream_request DefaultSchedulingPolicy
     \<lparr>previous_tick_dt = None, tick_dt = 100, queryer = (), sched_repository_def = (),
      sched_asset_key = [''a''], previous_cursor = None\<rparr> ([''b''], None)
     = Some \<lparr>include = False\<rparr>
   \<and> policy_run_requests
       [(DefaultSchedulingPolicy,
         \<lparr>previous_tick_dt = None, tick_dt = 100, queryer = (), sched_repository_def = (),
          sched_asset_key = [''a''], previous_cursor = None\<rparr>),
        (DefaultSchedulingPolicy,
         \<lparr>previous_tick_dt = None, tick_dt = 100, queryer = (), sched_repository_def = (),
          sched_asset_key = [''b''], previous_cursor = None\<rparr>)] = []"
  using default_policy_never_launches
    [of "\<lparr>previous_tick_dt = None, tick_dt = 100, queryer = (), sched_repository_def = (),
          sched_asset_key = [''a''], previous_cursor = None\<rparr>"
        "([''b''], None)"
        "\<lparr>previous_tick_dt = None, tick_dt = 100, queryer = (), sched_repository_def = (),
          sched_asset_key = [''a''], previous_cursor = None\<rparr>"
        "\<lparr>previous_tick_dt = None, tick_dt = 100, queryer = (), sched_repository_def = (),
          sched_asset_key = [''b''], previous_cursor = None\<rparr>"]
  by simp

section \<open>Results about the sensor tick\<close>

text \<open>
  C1. The cursor for the next tick has a strictly greater evaluation id than the cursor
  the tick started from, whatever the evaluation time and the results. The tick hands
  the old evaluation id to \<open>with_updates\<close> unchanged, so the increase is the bump of
  \<open>with_updates\<close>.
\<close>

theorem cursor_evaluation_id_increases:
  "evaluation_id c < evaluation_id (new_cursor c evaluation_time results)"
  by (simp add: new_cursor_def with_updates_def)

theorem cursor_evaluation_id_increases_witness:
  "evaluation_id example_cursor = 7
   \<and> 7 < evaluation_id (new_cursor example_cursor 1700000000 example_results)"
  using cursor_evaluation_id_increases [of example_cursor 1700000000 example_results]
  by (simp add: example_cursor_def)

text \<open>
  C2. The evaluations returned by the tick are the evaluation records of the results, in
  the order of the results, without those of the results for which a previous sub-cursor
  of the asset exists, its stored value hash equals the result's \<open>value_hash\<close> and the
  result's true-set is empty. So a record is left out exactly in that case, and a result
  with a non-empty true-set is recorded also when its hash is unchanged.
\<close>

theorem evaluation_omitted_iff_unchanged_and_empty:
  "updated_evaluations c results =
     map serializable_evaluation
       (filter (\<lambda>result.
          \<not> (\<exists>previous. get_previous_condition_cursor c (asset_key result) = Some previous
                \<and> result_value_hash previous = value_hash result
                \<and> true_slice result = {})) results)"
  by (simp add: updated_evaluations_def record_changed_filter)

theorem evaluation_omitted_iff_unchanged_and_empty_witness:
  "updated_evaluations example_cursor example_results
     = [''evaluation of b'', ''evaluation of c'', ''evaluation of d'']"
  using evaluation_omitted_iff_unchanged_and_empty [of example_cursor example_results]
  by (simp add: example_cursor_def example_results_def get_previous_condition_cursor_def)

text \<open>
  C6. The cursor for the next tick is stamped with the evaluation time of the tick. Its
  sub-cursor for an asset is the newly computed one of this tick (the last one in the
  results, should an asset occur twice), and the previous one for an asset this tick
  has no result for. With one result per asset, every result's new sub-cursor is the
  one stored for its asset.
\<close>

theorem cursor_update_is_partial:
  "evaluation_timestamp (new_cursor c evaluation_time results) = Some (timestamp evaluation_time)
   \<and> get_previous_condition_cursor (new_cursor c evaluation_time results) k =
       (case find (\<lambda>cc. key cc = k) (rev (map get_new_cursor results)) of
          Some cc \<Rightarrow> Some cc
        | None \<Rightarrow> get_previous_condition_cursor c k)
   \<and> (k \<notin> key ` set (map get_new_cursor results) \<longrightarrow>
        get_previous_condition_cursor (new_cursor c evaluation_time results) k =
          get_previous_condition_cursor c k)
   \<and> (distinct (map key (map get_new_cursor results)) \<longrightarrow>
        (\<forall>result \<in> set results.
           get_previous_condition_cursor (new_cursor c evaluation_time results)
             (key (get_new_cursor result)) = Some (get_new_cursor result)))"
proof -
  have stamp: "evaluation_timestamp (new_cursor c evaluation_time results)
                 = Some (timestamp evaluation_time)"
    by (simp add: new_cursor_def with_updates_def)
  have lookup: "get_previous_condition_cursor (new_cursor c evaluation_time results) k' =
       (case find (\<lambda>cc. key cc = k') (rev (map get_new_cursor results)) of
          Some cc \<Rightarrow> Some cc
        | None \<Rightarrow> get_previous_condition_cursor c k')" for k'
    by (simp add: new_cursor_def with_updates_def get_previous_condition_cursor_def
        replace_condition_cursors_lookup split: option.splits)
  have kept: "get_previous_condition_cursor (new_cursor c evaluation_time results) k =
          get_previous_condition_cursor c k"
    if "k \<notin> key ` set (map get_new_cursor results)"
    using find_key_absent[OF that] by (simp only: lookup option.case)
  have replaced: "get_previous_condition_cursor (new_cursor c evaluation_time results)
             (key (get_new_cursor result)) = Some (get_new_cursor result)"
    if "distinct (map key (map get_new_cursor results))" and "result \<in> set results"
    for result
  proof -
    from that(2) have "get_new_cursor result \<in> set (map get_new_cursor results)"
      by simp
    from find_distinct_key[OF that(1) this] show ?thesis
      by (simp only: lookup option.case)
  qed
  from stamp lookup kept replaced show ?thesis by blast
qed

theorem cursor_update_is_partial_witness:
  "evaluation_timestamp (new_cursor example_cursor 1700000000 example_results) = Some 1700000000
   \<and> [''z''] \<notin> key ` set (map get_new_cursor example_results)
   \<and> distinct (map key (map get_new_cursor example_results))
   \<and> get_previous_condition_cursor (new_cursor example_cursor 1700000000 example_results) [''z'']
       = Some \<lparr>key = [''z''], result_value_hash = ''h_z'', node_cursors = ''z0''\<rparr>
   \<and> get_previous_condition_cursor (new_cursor example_cursor 1700000000 example_results) [''a'']
       = Some \<lparr>key = [''a''], result_value_hash = ''h_empty'', node_cursors = ''a1''\<rparr>
   \<and> get_previous_condition_cursor (new_cursor example_cursor 1700000000 example_results) [''d'']
       = Some \<lparr>key = [''d''], result_value_hash = ''h_empty'', node_cursors = ''d1''\<rparr>"
  using cursor_update_is_partial [of example_cursor 1700000000 example_results "[''z'']"]
        cursor_update_is_partial [of example_cursor 1700000000 example_results "[''a'']"]
        cursor_update_is_partial [of example_cursor 1700000000 example_results "[''d'']"]
  by (simp add: example_cursor_def example_results_def get_previous_condition_cursor_def
      timestamp_def)

text \<open>
  C7. A serialized cursor that the decoder rejects (malformed, or of a foreign version)
  is read as the empty initial cursor, with no previous sub-cursor for any asset; the
  tick then runs exactly as a tick with no stored cursor does, and returns a result
  whenever the evaluator does not fail from the empty cursor.
\<close>

theorem malformed_cursor_falls_back_to_empty:
  assumes "repository_def context = Some repo"
    and "decode_cursor ext s (asset_graph repo) = None"
  shows "asset_daemon_cursor_from_instigator_serialized_cursor (decode_cursor ext) (Some s)
           (asset_graph repo) = empty_cursor
     \<and> (\<forall>k. get_previous_condition_cursor
               (asset_daemon_cursor_from_instigator_serialized_cursor (decode_cursor ext) (Some s)
                  (asset_graph repo)) k = None)
     \<and> evaluate_automation_conditions ext now (context\<lparr>cursor := Some s\<rparr>) sensor_def
         = evaluate_automation_conditions ext now (context\<lparr>cursor := None\<rparr>) sensor_def
     \<and> (\<forall>results to_request.
           evaluate ext (asset_graph repo) (asset_selection sensor_def (asset_graph repo))
             (instance context) now empty_cursor (da_request_backfills (instance context))
             (default_automation_condition sensor_def) = Inr (results, to_request)
           \<longrightarrow> (\<exists>r. evaluate_automation_conditions ext now (context\<lparr>cursor := Some s\<rparr>)
                        sensor_def = Inr r))"
proof -
  let ?read = "asset_daemon_cursor_from_instigator_serialized_cursor (decode_cursor ext)"
  have fallback: "?read (Some s) (asset_graph repo) = empty_cursor"
    using assms(2) by (simp add: asset_daemon_cursor_from_instigator_serialized_cursor_def)
  have first_tick: "?read None (asset_graph repo) = empty_cursor"
    by (simp add: asset_daemon_cursor_from_instigator_serialized_cursor_def)
  have no_sub_cursor: "get_previous_condition_cursor (?read (Some s) (asset_graph repo)) k = None"
    for k
    by (simp add: fallback get_previous_condition_cursor_def empty_cursor_def)
  have same: "evaluate_automation_conditions ext now (context\<lparr>cursor := Some s\<rparr>) sensor_def
         = evaluate_automation_conditions ext now (context\<lparr>cursor := None\<rparr>) sensor_def"
    by (simp add: evaluate_automation_conditions_def assms(1) fallback first_tick Let_def
        split: sum.splits)
  have completes:
    "\<exists>r. evaluate_automation_conditions ext now (context\<lparr>cursor := Some s\<rparr>) sensor_def = Inr r"
    if "evaluate ext (asset_graph repo) (asset_selection sensor_def (asset_graph repo))
             (instance context) now empty_cursor (da_request_backfills (instance context))
             (default_automation_condition sensor_def) = Inr (results, to_request)"
    for results to_request
    using that by (simp add: evaluate_automation_conditions_def assms(1) fallback Let_def)
  from fallback no_sub_cursor same completes show ?thesis by blast
qed

theorem malformed_cursor_falls_back_to_empty_witness:
  "repository_def example_context = Some \<lparr>asset_graph = ()\<rparr>
   \<and> decode_cursor example_collaborators ''not a cursor'' (asset_graph \<lparr>asset_graph = ()\<rparr>) = None
   \<and> asset_daemon_cursor_from_instigator_serialized_cursor (decode_cursor example_collaborators)
        (Some ''not a cursor'') () = empty_cursor
   \<and> evaluate_automation_conditions example_collaborators 1700000000
        (example_context\<lparr>cursor := Some ''not a cursor''\<rparr>) example_sensor
       = evaluate_automation_conditions example_collaborators 1700000000
           (example_context\<lparr>cursor := None\<rparr>) example_sensor
   \<and> evaluate_automation_conditions example_collaborators 1700000000
        (example_context\<lparr>cursor := Some ''not a cursor''\<rparr>) example_sensor
       = Inr \<lparr>run_requests = [], result_cursor = ''i'', automation_condition_evaluations = []\<rparr>"
  using malformed_cursor_falls_back_to_empty
          [of example_context "\<lparr>asset_graph = ()\<rparr>" example_collaborators "''not a cursor''"
              1700000000 example_sensor]
  by (simp add: evaluate_automation_conditions_def example_context_def example_collaborators_def
      example_sensor_def asset_daemon_cursor_from_instigator_serialized_cursor_def
      new_cursor_def with_updates_def updated_evaluations_def empty_cursor_def timestamp_def)

text \<open>
  C8. On every tick the list of asset keys newly requested for observation that is
  handed to \<open>with_updates\<close> is empty, and the new cursor records none.
\<close>

theorem no_observe_requests_recorded:
  "new_cursor c evaluation_time results =
     with_updates c (evaluation_id c) (timestamp evaluation_time) [] (map get_new_cursor results)
   \<and> newly_observe_requested (new_cursor c evaluation_time results) = []"
  by (simp add: new_cursor_def with_updates_def)

theorem no_observe_requests_recorded_witness:
  "newly_observe_requested example_cursor = [[''z'']]
   \<and> newly_observe_requested (new_cursor example_cursor 1700000000 example_results) = []"
  using no_observe_requests_recorded [of example_cursor 1700000000 example_results]
  by (simp add: example_cursor_def new_cursor_def with_updates_def)

section \<open>Results about the sensor definition\<close>

text \<open>
  C9. A sensor definition constructed without \<open>user_code\<close> set to \<open>True\<close> (absent,
  \<open>None\<close> or \<open>False\<close>) has an evaluation function that raises
  \<open>NotImplementedError\<close> on every context; it never returns a \<open>SensorResult\<close>.
\<close>

theorem non_user_code_sensor_not_supported:
  assumes "init check_valid_name normalize_tags nm selection tgs status interval descr
             kw_user_code kw_default_automation_condition = Inr self"
    and "kw_user_code \<noteq> Some (PyBool True)"
  shows "evaluation_fn ext now self context = Inl NotImplementedError
     \<and> (\<forall>r. evaluation_fn ext now self context \<noteq> Inr r)"
  using assms
  by (auto simp: init_def opt_bool_param_def evaluation_fn_def not_supported_def
      split: option.splits py_value.splits sum.splits if_splits)

theorem non_user_code_sensor_not_supported_witness:
  "init Inr (\<lambda>tgs. Inr (case tgs of None \<Rightarrow> [] | Some ts \<Rightarrow> ts)) ''automation''
        (\<lambda>g::unit. {[''a'']}) None STOPPED None None None (None :: unit option)
     = Inr (example_sensor\<lparr>user_code := False, asset_selection := (\<lambda>g. {[''a'']})\<rparr>)
   \<and> (None :: py_value option) \<noteq> Some (PyBool True)
   \<and> evaluation_fn example_collaborators 1700000000
        (example_sensor\<lparr>user_code := False, asset_selection := (\<lambda>g. {[''a'']})\<rparr>) example_context
       = Inl NotImplementedError"
  using non_user_code_sensor_not_supported
          [of Inr "\<lambda>tgs. Inr (case tgs of None \<Rightarrow> [] | Some ts \<Rightarrow> ts)" "''automation''"
              "\<lambda>g::unit. {[''a'']}" None STOPPED None None None "None :: unit option"
              "example_sensor\<lparr>user_code := False, asset_selection := (\<lambda>g. {[''a'']})\<rparr>"
              example_collaborators 1700000000 example_context]
  by (simp add: init_def opt_bool_param_def example_sensor_def)

end
